theory Spec2Isabelle
  imports Main "HOL-Library.Word" "HOL-Library.Signed_Division" "HOL-Library.Sublist"
begin

section \<open>The slackbot dispatch core (src/bot.go)\<close>

text \<open>
  The development follows \<^verbatim>\<open>src/bot.go\<close>: the typing estimator (\<^verbatim>\<open>msgLen\<close>,
  \<^verbatim>\<open>Type\<close>), the reply primitives, the identity accessors and the receive loop
  \<^verbatim>\<open>Run\<close>. The Slack client is an external collaborator: what the code sends to
  it, sleeps or prints is returned as a list of effects, in program order.
\<close>

subsection \<open>Durations\<close>

text \<open>
  Go's \<^verbatim>\<open>time.Duration\<close> is an \<^verbatim>\<open>int64\<close> count of nanoseconds: multiplication
  wraps around, division truncates towards zero, comparison is signed. Go's \<^verbatim>\<open>int\<close>
  is taken at 64 bits; \<^verbatim>\<open>len\<close> is never negative and below \<open>2^63\<close>.
\<close>

type_synonym Duration = "64 word"

definition Nanosecond :: Duration where
  "Nanosecond = 1"

definition Microsecond :: Duration where
  "Microsecond = 1000 * Nanosecond"

definition Millisecond :: Duration where
  "Millisecond = 1000 * Microsecond"

definition Second :: Duration where
  "Second = 1000 * Millisecond"

definition Minute :: Duration where
  "Minute = 60 * Second"

definition maxTypingSleepMs :: Duration where
  "maxTypingSleepMs = Millisecond * 2000"

definition duration_div :: "Duration \<Rightarrow> Duration \<Rightarrow> Duration" where
  "duration_div a b = word_of_int (sint a sdiv sint b)"

definition duration_gt :: "Duration \<Rightarrow> Duration \<Rightarrow> bool" where
  "duration_gt a b = (sint b < sint a)"

subsection \<open>Payloads and their length\<close>

text \<open>
  \<^verbatim>\<open>Type\<close> takes an \<^verbatim>\<open>interface{}\<close>. The type switch of \<^verbatim>\<open>msgLen\<close> tells a
  \<^verbatim>\<open>string\<close>, a \<^verbatim>\<open>[]slack.Attachment\<close> and everything else apart. The attachment
  type belongs to the Slack library and \<^verbatim>\<open>fmt.Sprintf("%#v", m)\<close> to Go's \<^verbatim>\<open>fmt\<close>:
  the attachment type is the type variable \<open>'a\<close>, and the serialiser is the
  parameter \<open>sprintf_v\<close>.
\<close>

datatype ('a, 'x) payload =
    PString string
  | PAttachments "'a list"
  | POther 'x

fun msgLen :: "('a list \<Rightarrow> string) \<Rightarrow> ('a, 'x) payload \<Rightarrow> 64 word" where
  "msgLen sprintf_v (PString m) = of_nat (length m)"
| "msgLen sprintf_v (PAttachments m) = of_nat (length (sprintf_v m))"
| "msgLen sprintf_v (POther x) = 0"

subsection \<open>Events, bot state and effects\<close>

record UserDetails =
  ID :: string
  Name :: string

record MessageEvent =
  Channel :: string
  User :: string
  Username :: string
  Text :: string

datatype event =
    Connected UserDetails int
  | Message MessageEvent
  | InvalidAuth
  | TransportError string string
  | Other

datatype EventKind = KConnected | KMessage | KInvalidAuth | KTransportError | KOther

text \<open>
  Modelled from the spec: the Route and RouteMatch records (the router's files are not
  part of \<^verbatim>\<open>src/\<close>). A Route is a compiled text matcher, an event-kind filter and a
  handler; a RouteMatch holds the matched route and its handler, both unset at first.
  Handlers are opaque: a handler is named by a value of type \<open>'h\<close> and its
  invocation is recorded in the trace.
\<close>

record 'h Route =
  pattern :: "string \<Rightarrow> bool"
  kind :: EventKind
  handler :: 'h

record 'h RouteMatch =
  MatchedRoute :: "'h Route option"
  Handler :: "'h option"

record 'h Bot =
  routes :: "'h Route list"
  botUserID :: string
  botUserName :: string

record PostMessageParameters =
  AsUser :: bool
  PostUsername :: string
  LinkNames :: int
  UnfurlLinks :: bool
  UnfurlMedia :: bool

text \<open>
  Modelled from the spec: the Context (\<^verbatim>\<open>AddBotToContext\<close> and
  \<^verbatim>\<open>AddMessageToContext\<close> are not part of \<^verbatim>\<open>src/\<close>). A context is an
  append-only association from keys to values; the newest binding comes first.
\<close>

datatype ctx_key = BotKey | MessageKey

datatype ctx_val = BotHandle | CurrentMessage MessageEvent

type_synonym Context = "(ctx_key \<times> ctx_val) list"

definition Background :: Context where
  "Background = []"

definition AddBotToContext :: "Context \<Rightarrow> Context" where
  "AddBotToContext ctx = (BotKey, BotHandle) # ctx"

definition AddMessageToContext :: "Context \<Rightarrow> MessageEvent \<Rightarrow> Context" where
  "AddMessageToContext ctx ev = (MessageKey, CurrentMessage ev) # ctx"

definition MessageFromContext :: "Context \<Rightarrow> MessageEvent option" where
  "MessageFromContext ctx =
     (case map_of ctx MessageKey of
        Some (CurrentMessage ev) \<Rightarrow> Some ev
      | _ \<Rightarrow> None)"

text \<open>What a reply primitive does to the Slack client and the clock.\<close>

datatype 'a effect =
    SendTyping string
  | Sleep Duration
  | SendMessage string string
  | PostText string string PostMessageParameters
  | PostAttachments string "'a list" PostMessageParameters

text \<open>What one iteration of the receive loop prints and calls.\<close>

datatype 'h action =
    PrintConnected UserDetails int
  | PrintInvalidCredentials
  | PrintError string string
  | CallMatch Context
  | CallHandler 'h Context

subsection \<open>Typing simulation and replies\<close>

definition sleepDuration :: "('a list \<Rightarrow> string) \<Rightarrow> ('a, 'x) payload \<Rightarrow> Duration" where
  "sleepDuration sprintf_v msg =
     (let d = duration_div (Minute * msgLen sprintf_v msg) 3000
      in if duration_gt d maxTypingSleepMs then maxTypingSleepMs else d)"

definition Type :: "('a list \<Rightarrow> string) \<Rightarrow> MessageEvent \<Rightarrow> ('a, 'x) payload \<Rightarrow> 'a effect list" where
  "Type sprintf_v evt msg = [SendTyping (Channel evt), Sleep (sleepDuration sprintf_v msg)]"

definition BotUserID :: "'h Bot \<Rightarrow> string" where
  "BotUserID b = botUserID b"

definition BotUserName :: "'h Bot \<Rightarrow> string" where
  "BotUserName b = botUserName b"

definition setBotID :: "'h Bot \<Rightarrow> string \<Rightarrow> 'h Bot" where
  "setBotID b i = b\<lparr>botUserID := i\<rparr>"

definition setBotName :: "'h Bot \<Rightarrow> string \<Rightarrow> 'h Bot" where
  "setBotName b n = b\<lparr>botUserName := n\<rparr>"

definition Reply :: "('a list \<Rightarrow> string) \<Rightarrow> 'h Bot \<Rightarrow> MessageEvent \<Rightarrow> string \<Rightarrow> bool \<Rightarrow> 'a effect list" where
  "Reply sprintf_v b evt msg typing =
     (if typing then Type sprintf_v evt (PString msg :: ('a, unit) payload) else [])
     @ [SendMessage msg (Channel evt)]"

definition ReplyPost :: "('a list \<Rightarrow> string) \<Rightarrow> 'h Bot \<Rightarrow> MessageEvent \<Rightarrow> string \<Rightarrow> bool \<Rightarrow> 'a effect list" where
  "ReplyPost sprintf_v b evt msg typing =
     (if typing then Type sprintf_v evt (PString msg :: ('a, unit) payload) else [])
     @ [PostText (Channel evt) msg
          \<lparr>AsUser = True, PostUsername = BotUserID b, LinkNames = 1,
           UnfurlLinks = True, UnfurlMedia = True\<rparr>]"

definition ReplyWithAttachments :: "('a list \<Rightarrow> string) \<Rightarrow> 'h Bot \<Rightarrow> MessageEvent \<Rightarrow> 'a list \<Rightarrow> bool \<Rightarrow> 'a effect list" where
  "ReplyWithAttachments sprintf_v b evt attachments typing =
     (if typing then Type sprintf_v evt (PString ''attachment'' :: ('a, unit) payload) else [])
     @ [PostAttachments (Channel evt) attachments
          \<lparr>AsUser = True, PostUsername = botUserID b, LinkNames = 1,
           UnfurlLinks = False, UnfurlMedia = False\<rparr>]"

fun slept :: "'a effect list \<Rightarrow> Duration list" where
  "slept [] = []"
| "slept (Sleep d # es) = d # slept es"
| "slept (e # es) = slept es"

subsection \<open>Route matching\<close>

text \<open>
  Modelled from the spec: \<^verbatim>\<open>Match\<close> (the router is not part of \<^verbatim>\<open>src/\<close>). It
  iterates the routes in registration order; a route is selected when its kind is the
  event's kind and its pattern matches the event's text; the out-parameter then holds
  the route and its handler and the result is true. When no route matches the result
  is false and the out-parameter is left as it was. The event is the message bound in
  the context, so its kind is the message kind.
\<close>

definition route_matches :: "'h Route \<Rightarrow> MessageEvent \<Rightarrow> bool" where
  "route_matches r ev = (kind r = KMessage \<and> pattern r (Text ev))"

fun match_routes :: "'h Route list \<Rightarrow> MessageEvent \<Rightarrow> 'h RouteMatch \<Rightarrow> bool \<times> 'h RouteMatch" where
  "match_routes [] ev m = (False, m)"
| "match_routes (r # rs) ev m =
     (if route_matches r ev
      then (True, m\<lparr>MatchedRoute := Some r, Handler := Some (handler r)\<rparr>)
      else match_routes rs ev m)"

definition Match :: "'h Route list \<Rightarrow> Context \<Rightarrow> 'h RouteMatch \<Rightarrow> bool \<times> Context \<times> 'h RouteMatch" where
  "Match rs ctx m =
     (case MessageFromContext ctx of
        None \<Rightarrow> (False, ctx, m)
      | Some ev \<Rightarrow> (case match_routes rs ev m of (matched, m') \<Rightarrow> (matched, ctx, m')))"

text \<open>
  Modelled from the spec: a pattern without metacharacters, under full-text search
  semantics (the pattern need not anchor to the start or the end of the text), and the
  message route registered for such a pattern.
\<close>

fun contains :: "string \<Rightarrow> string \<Rightarrow> bool" where
  "contains p [] = (p = [])"
| "contains p (c # cs) = (prefix p (c # cs) \<or> contains p cs)"

definition literal_route :: "string \<Rightarrow> 'h \<Rightarrow> 'h Route" where
  "literal_route p h = \<lparr>pattern = contains p, kind = KMessage, handler = h\<rparr>"

subsection \<open>The receive loop\<close>

text \<open>
  One iteration of the loop of \<^verbatim>\<open>Run\<close> on one received event. The result is the
  bot after the iteration, the effects of the iteration, and how the iteration leaves
  the loop body: \<open>Continue\<close> (next iteration), \<open>Break\<close> (\<^verbatim>\<open>break LOOP\<close>), or
  \<open>Panic\<close> (the call of a nil \<^verbatim>\<open>match.Handler\<close>). Handlers are taken to return.
\<close>

datatype control = Continue | Break | Panic

definition empty_match :: "'h RouteMatch" where
  "empty_match = \<lparr>MatchedRoute = None, Handler = None\<rparr>"

fun handle_event :: "'h Bot \<Rightarrow> event \<Rightarrow> 'h Bot \<times> 'h action list \<times> control" where
  "handle_event b (Connected u n) =
     (setBotName (setBotID b (ID u)) (Name u), [PrintConnected u n], Continue)"
| "handle_event b (Message ev) =
     (let ctx = AddBotToContext Background in
      if botUserID b = User ev \<or> botUserName b = User ev then (b, [], Continue)
      else
        let ctx = AddMessageToContext ctx ev in
        (case Match (routes b) ctx empty_match of
           (matched, ctx', m) \<Rightarrow>
             if matched then
               (case Handler m of
                  Some h \<Rightarrow> (b, [CallMatch ctx, CallHandler h ctx'], Continue)
                | None \<Rightarrow> (b, [CallMatch ctx], Panic))
             else (b, [CallMatch ctx], Continue)))"
| "handle_event b InvalidAuth = (b, [PrintInvalidCredentials], Break)"
| "handle_event b (TransportError t s) = (b, [PrintError t s], Continue)"
| "handle_event b Other = (b, [], Continue)"

text \<open>
  The loop on the events the inbound channel delivers, in order. The channel of the
  source never closes: when the events given are used up the loop blocks on the
  channel (\<open>Awaiting\<close>). \<open>unread\<close> are the events still in the channel when the
  loop has been left.
\<close>

datatype run_status = Awaiting | Exited | Panicked

record 'h run_result =
  final :: "'h Bot"
  trace :: "'h action list"
  status :: run_status
  unread :: "event list"

fun Run :: "'h Bot \<Rightarrow> event list \<Rightarrow> 'h run_result" where
  "Run b [] = \<lparr>final = b, trace = [], status = Awaiting, unread = []\<rparr>"
| "Run b (msg # rest) =
     (case handle_event b msg of
        (b', acts, c) \<Rightarrow>
          (case c of
             Continue \<Rightarrow> (let r = Run b' rest in r\<lparr>trace := acts @ trace r\<rparr>)
           | Break \<Rightarrow> \<lparr>final = b', trace = acts, status = Exited, unread = rest\<rparr>
           | Panic \<Rightarrow> \<lparr>final = b', trace = acts, status = Panicked, unread = rest\<rparr>))"

text \<open>
  Instrumentation of a trace: the contexts \<^verbatim>\<open>Match\<close> was invoked on, and the
  handlers that ran, in order.
\<close>

fun match_calls :: "'h action list \<Rightarrow> Context list" where
  "match_calls [] = []"
| "match_calls (CallMatch ctx # as) = ctx # match_calls as"
| "match_calls (a # as) = match_calls as"

fun handler_calls :: "'h action list \<Rightarrow> 'h list" where
  "handler_calls [] = []"
| "handler_calls (CallHandler h ctx # as) = h # handler_calls as"
| "handler_calls (a # as) = handler_calls as"

section \<open>Properties\<close>

subsection \<open>Duration arithmetic\<close>

lemma Minute_val: "Minute = 60000000000"
  by (simp add: Minute_def Second_def Millisecond_def Microsecond_def Nanosecond_def)

lemma maxTypingSleepMs_val: "maxTypingSleepMs = 2000000000"
  by (simp add: maxTypingSleepMs_def Millisecond_def Microsecond_def Nanosecond_def)

lemma sint_int64:
  assumes "- (2 ^ 63) \<le> k" "k < 2 ^ 63"
  shows "sint (word_of_int k :: 64 word) = k"
  using assms by (simp add: sint_sbintrunc' signed_take_bit_int_eq_self)

text \<open>Up to 153722867 length units the product with \<open>Minute\<close> fits 63 bits.\<close>

lemma sint_Minute_mult:
  assumes "n \<le> 153722867"
  shows "sint (Minute * (of_nat n :: 64 word)) = 60000000000 * int n"
proof -
  have "Minute * (of_nat n :: 64 word) = word_of_int (60000000000 * int n)"
    by (simp add: Minute_val)
  moreover have "60000000000 * int n < 2 ^ 63" using assms by simp
  moreover have "- (2 ^ 63) \<le> 60000000000 * int n" by simp
  ultimately show ?thesis by (simp only: sint_int64)
qed

lemma sdiv_3000: "(60000000000 * int n) sdiv 3000 = 20000000 * int n"
  by (cases "n = 0") (simp_all add: signed_divide_int_def sgn_mult)

lemma unclamped_in_range:
  assumes "n \<le> 153722867"
  shows "sint (duration_div (Minute * (of_nat n :: 64 word)) 3000) = 20000000 * int n"
proof -
  have "duration_div (Minute * (of_nat n :: 64 word)) 3000 = word_of_int (20000000 * int n)"
    by (simp add: duration_div_def sint_Minute_mult [OF assms] sdiv_3000)
  moreover have "20000000 * int n < 2 ^ 63" using assms by simp
  moreover have "- (2 ^ 63) \<le> 20000000 * int n" by simp
  ultimately show ?thesis by (simp only: sint_int64)
qed

text \<open>
  Below the wrap-around the delay is the formula of the source, clamped: for a payload
  of at most 153722867 length units it is the smaller of \<open>60 s * length / 3000\<close> and
  2000 ms, in nanoseconds.
\<close>

lemma sleepDuration_in_range:
  assumes "msgLen f msg = of_nat n" "n \<le> 153722867"
  shows "sint (sleepDuration f msg) = min (60000000000 * int n div 3000) 2000000000"
proof -
  have "sint (duration_div (Minute * msgLen f msg) 3000) = 20000000 * int n"
    using unclamped_in_range [OF assms(2)] assms(1) by simp
  then show ?thesis
    by (simp add: sleepDuration_def Let_def duration_gt_def maxTypingSleepMs_val min_def)
qed

lemma sleepDuration_le_max: "sint (sleepDuration f msg) \<le> 2000000000"
  by (simp add: sleepDuration_def Let_def duration_gt_def maxTypingSleepMs_val)

lemma sleepDuration_empty: "sleepDuration f (PString []) = 0"
  by (simp add: sleepDuration_def Let_def duration_div_def duration_gt_def
      maxTypingSleepMs_val signed_divide_int_def)

lemma sleepDuration_mono_in_range:
  assumes "length m \<le> length m'" "length m' \<le> 153722867"
  shows "sint (sleepDuration f (PString m)) \<le> sint (sleepDuration f (PString m'))"
proof -
  have a: "sint (sleepDuration f (PString m)) = min (60000000000 * int (length m) div 3000) 2000000000"
    using assms by (intro sleepDuration_in_range) simp_all
  have b: "sint (sleepDuration f (PString m')) = min (60000000000 * int (length m') div 3000) 2000000000"
    using assms by (intro sleepDuration_in_range) simp_all
  show ?thesis
    unfolding a b using assms(1) by (simp add: min_def)
qed

subsection \<open>The loop on a stream that continues\<close>

lemma Run_append:
  "status (Run b pre) = Awaiting \<Longrightarrow>
   Run b (pre @ es) =
     (let r = Run (final (Run b pre)) es in r\<lparr>trace := trace (Run b pre) @ trace r\<rparr>)"
proof (induction pre arbitrary: b)
  case Nil
  then show ?case by simp
next
  case (Cons e pre)
  obtain b' acts c where h: "handle_event b e = (b', acts, c)"
    by (cases "handle_event b e") auto
  show ?case
  proof (cases c)
    case Continue
    with Cons.prems h have "status (Run b' pre) = Awaiting" by (simp add: Let_def)
    from Cons.IH [OF this] h Continue show ?thesis by (simp add: Let_def)
  next
    case Break
    with Cons.prems h show ?thesis by simp
  next
    case Panic
    with Cons.prems h show ?thesis by simp
  qed
qed

lemma MessageFromContext_Add: "MessageFromContext (AddMessageToContext ctx ev) = Some ev"
  by (simp add: MessageFromContext_def AddMessageToContext_def)

lemma match_routes_first:
  assumes "i < length rs" "route_matches (rs ! i) ev" "\<forall>j<i. \<not> route_matches (rs ! j) ev"
  shows "match_routes rs ev m =
    (True, m\<lparr>MatchedRoute := Some (rs ! i), Handler := Some (handler (rs ! i))\<rparr>)"
  using assms
proof (induction rs arbitrary: i)
  case Nil
  then show ?case by simp
next
  case (Cons r rs)
  show ?case
  proof (cases i)
    case 0
    with Cons.prems show ?thesis by simp
  next
    case (Suc k)
    with Cons.prems have nr: "\<not> route_matches r ev" by auto
    have "k < length rs" "route_matches (rs ! k) ev" "\<forall>j<k. \<not> route_matches (rs ! j) ev"
      using Cons.prems Suc by auto
    from Cons.IH [OF this] nr Suc show ?thesis by simp
  qed
qed

lemma match_routes_Handler:
  "match_routes rs ev m = (True, m') \<Longrightarrow> Handler m' \<noteq> None"
  by (induction rs) (auto split: if_splits)

lemma handle_event_no_Panic: "snd (snd (handle_event b e)) \<noteq> Panic"
proof (cases e)
  case (Message ev)
  then show ?thesis
    by (auto simp: Let_def Match_def MessageFromContext_Add
        split: prod.splits option.splits dest: match_routes_Handler)
qed simp_all

text \<open>
  The loop is at its receive point after every stream without an invalid-authentication
  event.
\<close>

lemma Run_Awaiting: "InvalidAuth \<notin> set evs \<Longrightarrow> status (Run b evs) = Awaiting"
proof (induction evs arbitrary: b)
  case Nil
  then show ?case by simp
next
  case (Cons e es)
  obtain b' acts c where h: "handle_event b e = (b', acts, c)"
    by (cases "handle_event b e") auto
  have "c \<noteq> Panic" using handle_event_no_Panic [of b e] h by simp
  moreover have "c \<noteq> Break" using Cons.prems h by (cases e) (auto simp: Let_def split: prod.splits option.splits if_splits)
  ultimately have "c = Continue" by (cases c) simp_all
  with Cons h show ?case by (simp add: Let_def)
qed

subsection \<open>Self-message suppression\<close>

text \<open>
  Claim C1. For every Message event whose sender (the event's \<^verbatim>\<open>User\<close> field) equals
  the stored \<^verbatim>\<open>botUserID\<close> or the stored \<^verbatim>\<open>botUserName\<close>, the receive loop skips
  routing: the iteration does nothing at all, so \<^verbatim>\<open>Match\<close> is not invoked and no handler
  runs. The loop has received \<open>pre\<close> and is at its receive point; the identity is
  the one stored at that moment. The run with the event is the run without it.
\<close>

theorem self_message_skips_routing:
  assumes "status (Run b pre) = Awaiting"
    and "botUserID (final (Run b pre)) = User ev \<or> botUserName (final (Run b pre)) = User ev"
  shows "handle_event (final (Run b pre)) (Message ev) = (final (Run b pre), [], Continue)
    \<and> Run b (pre @ Message ev # rest) = Run b (pre @ rest)
    \<and> match_calls (trace (Run b (pre @ [Message ev]))) = match_calls (trace (Run b pre))
    \<and> handler_calls (trace (Run b (pre @ [Message ev]))) = handler_calls (trace (Run b pre))"
  using assms(2) by (simp add: Run_append [OF assms(1)] Let_def)

text \<open>
  The scenario of the specification: Connected with user ID U123 and name bot1, then a
  message from U123 whose text a route matches.
\<close>

theorem self_message_skips_routing_witness:
  "status (Run \<lparr>routes = [literal_route ''hi'' (1::nat)], botUserID = [], botUserName = []\<rparr>
      [Connected \<lparr>ID = ''U123'', Name = ''bot1''\<rparr> 1]) = Awaiting
   \<and> botUserID (final (Run \<lparr>routes = [literal_route ''hi'' (1::nat)], botUserID = [], botUserName = []\<rparr>
      [Connected \<lparr>ID = ''U123'', Name = ''bot1''\<rparr> 1])) = ''U123''
   \<and> match_calls (trace (Run \<lparr>routes = [literal_route ''hi'' (1::nat)], botUserID = [], botUserName = []\<rparr>
      [Connected \<lparr>ID = ''U123'', Name = ''bot1''\<rparr> 1,
       Message \<lparr>Channel = ''C1'', User = ''U123'', Username = ''bot1'', Text = ''hi''\<rparr>])) = []
   \<and> handler_calls (trace (Run \<lparr>routes = [literal_route ''hi'' (1::nat)], botUserID = [], botUserName = []\<rparr>
      [Connected \<lparr>ID = ''U123'', Name = ''bot1''\<rparr> 1,
       Message \<lparr>Channel = ''C1'', User = ''U123'', Username = ''bot1'', Text = ''hi''\<rparr>])) = []"
  using self_message_skips_routing [of "\<lparr>routes = [literal_route ''hi'' (1::nat)], botUserID = [], botUserName = []\<rparr>"
      "[Connected \<lparr>ID = ''U123'', Name = ''bot1''\<rparr> 1]"
      "\<lparr>Channel = ''C1'', User = ''U123'', Username = ''bot1'', Text = ''hi''\<rparr>" "[]"]
  by (simp add: setBotID_def setBotName_def)

text \<open>
  Claim C10. The check compares both stored fields with one field of the event, its
  \<^verbatim>\<open>User\<close> field: \<^verbatim>\<open>Match\<close> is not invoked if and only if that field equals
  \<^verbatim>\<open>botUserID\<close> or \<^verbatim>\<open>botUserName\<close>, and the event's \<^verbatim>\<open>Username\<close> never
  changes the outcome.
\<close>

theorem suppression_reads_User_only:
  "(match_calls (fst (snd (handle_event b (Message ev)))) = [])
      = (botUserID b = User ev \<or> botUserName b = User ev)
   \<and> (match_calls (fst (snd (handle_event b (Message (ev\<lparr>Username := n\<rparr>))))) = [])
      = (match_calls (fst (snd (handle_event b (Message ev)))) = [])"
  by (auto simp: Let_def split: prod.splits option.splits)

text \<open>
  A sender whose display name is the bot's name but whose ID is not is routed; a
  sender whose ID field holds the bot's name is suppressed.
\<close>

theorem suppression_reads_User_only_witness:
  "match_calls (fst (snd (handle_event
      \<lparr>routes = [literal_route ''hi'' (1::nat)], botUserID = ''U123'', botUserName = ''bot1''\<rparr>
      (Message \<lparr>Channel = ''C1'', User = ''U2'', Username = ''bot1'', Text = ''hi''\<rparr>)))) \<noteq> []
   \<and> match_calls (fst (snd (handle_event
      \<lparr>routes = [literal_route ''hi'' (1::nat)], botUserID = ''U123'', botUserName = ''bot1''\<rparr>
      (Message \<lparr>Channel = ''C1'', User = ''bot1'', Username = ''ann'', Text = ''hi''\<rparr>)))) = []"
  using suppression_reads_User_only [where b = "\<lparr>routes = [literal_route ''hi'' (1::nat)], botUserID = ''U123'', botUserName = ''bot1''\<rparr>"
      and ev = "\<lparr>Channel = ''C1'', User = ''U2'', Username = ''bot1'', Text = ''hi''\<rparr>"]
    suppression_reads_User_only [where b = "\<lparr>routes = [literal_route ''hi'' (1::nat)], botUserID = ''U123'', botUserName = ''bot1''\<rparr>"
      and ev = "\<lparr>Channel = ''C1'', User = ''bot1'', Username = ''ann'', Text = ''hi''\<rparr>"]
  by (simp del: handle_event.simps)

subsection \<open>Route selection\<close>

text \<open>
  Claim C2. \<^verbatim>\<open>Match\<close> selects the first route in registration order whose kind and
  pattern both match: when the route at index \<open>i\<close> matches and no earlier one does,
  the result is true with that route and its handler, whatever is registered after
  it, and the loop invokes that handler on a message that is not the bot's own.
\<close>

theorem Match_selects_first:
  assumes "i < length rs" "route_matches (rs ! i) ev" "\<forall>j<i. \<not> route_matches (rs ! j) ev"
  shows "Match rs (AddMessageToContext ctx ev) m =
      (True, AddMessageToContext ctx ev,
       m\<lparr>MatchedRoute := Some (rs ! i), Handler := Some (handler (rs ! i))\<rparr>)
    \<and> (routes b = rs \<and> botUserID b \<noteq> User ev \<and> botUserName b \<noteq> User ev \<longrightarrow>
       handle_event b (Message ev) =
         (b, [CallMatch (AddMessageToContext (AddBotToContext Background) ev),
              CallHandler (handler (rs ! i)) (AddMessageToContext (AddBotToContext Background) ev)],
          Continue))"
  by (simp add: Match_def MessageFromContext_Add match_routes_first [OF assms] Let_def empty_match_def)

text \<open>
  Three routes for the patterns bye, hi and hi there, in this order, and the text
  hi there: the second and the third match, the second one's handler runs.
\<close>

theorem Match_selects_first_witness:
  "route_matches (literal_route ''hi'' (2::nat)) \<lparr>Channel = ''C1'', User = ''U2'', Username = ''ann'', Text = ''hi there''\<rparr>
   \<and> route_matches (literal_route ''hi there'' (3::nat)) \<lparr>Channel = ''C1'', User = ''U2'', Username = ''ann'', Text = ''hi there''\<rparr>
   \<and> \<not> route_matches (literal_route ''bye'' (1::nat)) \<lparr>Channel = ''C1'', User = ''U2'', Username = ''ann'', Text = ''hi there''\<rparr>
   \<and> handler_calls (fst (snd (handle_event
        \<lparr>routes = [literal_route ''bye'' (1::nat), literal_route ''hi'' 2, literal_route ''hi there'' 3],
         botUserID = ''U123'', botUserName = ''bot1''\<rparr>
        (Message \<lparr>Channel = ''C1'', User = ''U2'', Username = ''ann'', Text = ''hi there''\<rparr>)))) = [2]"
  using Match_selects_first [where i = 1
      and rs = "[literal_route ''bye'' (1::nat), literal_route ''hi'' 2, literal_route ''hi there'' 3]"
      and ev = "\<lparr>Channel = ''C1'', User = ''U2'', Username = ''ann'', Text = ''hi there''\<rparr>"
      and b = "\<lparr>routes = [literal_route ''bye'' (1::nat), literal_route ''hi'' 2, literal_route ''hi there'' 3],
         botUserID = ''U123'', botUserName = ''bot1''\<rparr>"
      and ctx = Background and m = empty_match]
  by (simp add: route_matches_def literal_route_def del: handle_event.simps)

subsection \<open>Typing delay\<close>

text \<open>
  Claim C3, evaluated at the length where the code departs from it. For a text of 153722868 bytes the
  formula gives a delay over 2000 ms, to be clamped to 2000 ms. In the code the
  product of \<^verbatim>\<open>time.Minute\<close> and the length no longer fits \<^verbatim>\<open>int64\<close>: it wraps to
  a negative number, the comparison with the cap fails, and the duration slept is
  negative. Lemma \<open>sleepDuration_in_range\<close> gives the claim up to 153722867 length
  units.
\<close>

theorem Type_delay_wraps_around:
  "length (replicate 153722868 c) = 153722868
   \<and> min (60000000000 * int (length (replicate 153722868 c)) div 3000) 2000000000 = 2000000000
   \<and> sint (Minute * msgLen f (PString (replicate 153722868 c))) = - 9223371993709551616
   \<and> sint (sleepDuration f (PString (replicate 153722868 c))) = - 3074457331236517
   \<and> slept (Type f evt (PString (replicate 153722868 c))) = [- 3074457331236517]"
  by (simp add: Type_def sleepDuration_def duration_div_def duration_gt_def Minute_val
      maxTypingSleepMs_val signed_divide_int_def Let_def)

text \<open>
  Claim C6, evaluated at the lengths where the code departs from it. A text of 100 bytes is delayed by
  2000 ms, a text of 153722868 bytes by a negative duration: the delay is not
  monotone in the length. The bound of 2000 ms holds for every payload
  (\<open>sleepDuration_le_max\<close>), the empty text has delay 0 (\<open>sleepDuration_empty\<close>), and
  the delay is monotone up to 153722867 bytes (\<open>sleepDuration_mono_in_range\<close>).
\<close>

theorem Type_delay_not_monotone:
  "length (replicate 100 c) \<le> length (replicate 153722868 c)
   \<and> sint (sleepDuration f (PString (replicate 100 c))) = 2000000000
   \<and> sint (sleepDuration f (PString (replicate 153722868 c))) = - 3074457331236517
   \<and> sint (sleepDuration f (PString (replicate 153722868 c)))
       < sint (sleepDuration f (PString (replicate 100 c)))"
  by (simp add: sleepDuration_def duration_div_def duration_gt_def Minute_val
      maxTypingSleepMs_val signed_divide_int_def Let_def)

text \<open>
  Claim C7. A payload that is neither a text nor an attachment list has length 0 and
  delay 0, whatever it holds.
\<close>

theorem unsupported_payload_no_delay:
  "msgLen f (POther x) = 0
   \<and> sleepDuration f (POther x) = 0
   \<and> Type f evt (POther x) = [SendTyping (Channel evt), Sleep 0]"
  by (simp add: Type_def sleepDuration_def Let_def duration_div_def duration_gt_def
      maxTypingSleepMs_val signed_divide_int_def)

theorem unsupported_payload_no_delay_witness:
  "msgLen concat (POther (replicate 5000 True) :: (string, bool list) payload) = 0
   \<and> sleepDuration concat (POther (replicate 5000 True) :: (string, bool list) payload) = 0"
  using unsupported_payload_no_delay [where f = concat and x = "replicate 5000 True"]
  by simp

text \<open>
  Claim C4 as stated fails: with typing enabled \<^verbatim>\<open>ReplyWithAttachments\<close> hands
  \<^verbatim>\<open>Type\<close> the text \<^verbatim>\<open>"attachment"\<close>, never the attachment list. For a list whose
  serialisation has length 9000 the delay slept is 200 ms, not the 2000 ms that the
  serialised size gives.
\<close>

theorem ReplyWithAttachments_delay_counterexample:
  "length (concat [replicate 9000 CHR ''a'']) = 9000
   \<and> sleepDuration concat (PAttachments [replicate 9000 CHR ''a''] :: (string, unit) payload) = 2000000000
   \<and> slept (ReplyWithAttachments concat
        \<lparr>routes = ([] :: nat Route list), botUserID = ''U123'', botUserName = ''bot1''\<rparr>
        \<lparr>Channel = ''C1'', User = ''U2'', Username = ''ann'', Text = ''hi''\<rparr>
        [replicate 9000 CHR ''a''] True) = [200000000]
   \<and> slept (ReplyWithAttachments concat
        \<lparr>routes = ([] :: nat Route list), botUserID = ''U123'', botUserName = ''bot1''\<rparr>
        \<lparr>Channel = ''C1'', User = ''U2'', Username = ''ann'', Text = ''hi''\<rparr>
        [replicate 9000 CHR ''a''] True)
      \<noteq> [sleepDuration concat (PAttachments [replicate 9000 CHR ''a''] :: (string, unit) payload)]"
  by (simp add: ReplyWithAttachments_def Type_def sleepDuration_def duration_div_def duration_gt_def
      Minute_val maxTypingSleepMs_val signed_divide_int_def Let_def)

text \<open>
  Claim C4, amended. With typing enabled \<^verbatim>\<open>ReplyWithAttachments\<close> sends the typing
  indicator, sleeps the delay of the placeholder text \<^verbatim>\<open>"attachment"\<close> (length 10, so
  200 ms) whatever the attachment list is, and posts the attachments. The serialised
  size sets the delay only when \<^verbatim>\<open>Type\<close> is given the list itself: for a
  serialisation of length 9000 the computed delay is 180000 ms, clamped to 2000 ms.
\<close>

theorem ReplyWithAttachments_delay:
  "ReplyWithAttachments f b evt atts True =
      [SendTyping (Channel evt), Sleep (200 * Millisecond),
       PostAttachments (Channel evt) atts
         \<lparr>AsUser = True, PostUsername = botUserID b, LinkNames = 1,
          UnfurlLinks = False, UnfurlMedia = False\<rparr>]
   \<and> sleepDuration f (PString ''attachment'' :: ('a, unit) payload) = 200 * Millisecond
   \<and> (length (f atts) = 9000 \<longrightarrow>
        duration_div (Minute * msgLen f (PAttachments atts :: ('a, unit) payload)) 3000 = 180000 * Millisecond
        \<and> sleepDuration f (PAttachments atts :: ('a, unit) payload) = 2000 * Millisecond)"
  by (simp add: ReplyWithAttachments_def Type_def sleepDuration_def duration_div_def duration_gt_def
      Minute_val maxTypingSleepMs_val signed_divide_int_def Let_def Millisecond_def Microsecond_def Nanosecond_def)

theorem ReplyWithAttachments_delay_witness:
  "length (concat [replicate 9000 CHR ''a'']) = 9000
   \<and> slept (ReplyWithAttachments concat
        \<lparr>routes = ([] :: nat Route list), botUserID = ''U123'', botUserName = ''bot1''\<rparr>
        \<lparr>Channel = ''C1'', User = ''U2'', Username = ''ann'', Text = ''hi''\<rparr>
        [replicate 9000 CHR ''a''] True) = [200 * Millisecond]
   \<and> sleepDuration concat (PAttachments [replicate 9000 CHR ''a''] :: (string, unit) payload) = 2000 * Millisecond"
  using ReplyWithAttachments_delay [where f = concat
      and b = "\<lparr>routes = ([] :: nat Route list), botUserID = ''U123'', botUserName = ''bot1''\<rparr>"
      and evt = "\<lparr>Channel = ''C1'', User = ''U2'', Username = ''ann'', Text = ''hi''\<rparr>"
      and atts = "[replicate 9000 CHR ''a'']"]
  by simp

subsection \<open>Control events\<close>

text \<open>
  Claim C5. When the loop receives an InvalidAuth event it terminates: the events
  behind it stay unread in the channel, and nothing more is printed or called.
\<close>

theorem InvalidAuth_terminates:
  assumes "status (Run b pre) = Awaiting"
  shows "Run b (pre @ InvalidAuth # rest) =
     \<lparr>final = final (Run b pre), trace = trace (Run b pre) @ [PrintInvalidCredentials],
      status = Exited, unread = rest\<rparr>"
  by (simp add: Run_append [OF assms] Let_def)

text \<open>
  A message, then InvalidAuth, then a message and another event already buffered: the
  handler runs once, for the first message only.
\<close>

theorem InvalidAuth_terminates_witness:
  "status (Run \<lparr>routes = [literal_route ''hi'' (1::nat)], botUserID = ''U123'', botUserName = ''bot1''\<rparr>
      [Message \<lparr>Channel = ''C1'', User = ''U2'', Username = ''ann'', Text = ''hi''\<rparr>]) = Awaiting
   \<and> status (Run \<lparr>routes = [literal_route ''hi'' (1::nat)], botUserID = ''U123'', botUserName = ''bot1''\<rparr>
      ([Message \<lparr>Channel = ''C1'', User = ''U2'', Username = ''ann'', Text = ''hi''\<rparr>]
       @ InvalidAuth # [Message \<lparr>Channel = ''C1'', User = ''U2'', Username = ''ann'', Text = ''hi''\<rparr>, Other])) = Exited
   \<and> unread (Run \<lparr>routes = [literal_route ''hi'' (1::nat)], botUserID = ''U123'', botUserName = ''bot1''\<rparr>
      ([Message \<lparr>Channel = ''C1'', User = ''U2'', Username = ''ann'', Text = ''hi''\<rparr>]
       @ InvalidAuth # [Message \<lparr>Channel = ''C1'', User = ''U2'', Username = ''ann'', Text = ''hi''\<rparr>, Other]))
      = [Message \<lparr>Channel = ''C1'', User = ''U2'', Username = ''ann'', Text = ''hi''\<rparr>, Other]
   \<and> handler_calls (trace (Run \<lparr>routes = [literal_route ''hi'' (1::nat)], botUserID = ''U123'', botUserName = ''bot1''\<rparr>
      ([Message \<lparr>Channel = ''C1'', User = ''U2'', Username = ''ann'', Text = ''hi''\<rparr>]
       @ InvalidAuth # [Message \<lparr>Channel = ''C1'', User = ''U2'', Username = ''ann'', Text = ''hi''\<rparr>, Other]))) = [1]"
  using InvalidAuth_terminates [where b = "\<lparr>routes = [literal_route ''hi'' (1::nat)], botUserID = ''U123'', botUserName = ''bot1''\<rparr>"
      and pre = "[Message \<lparr>Channel = ''C1'', User = ''U2'', Username = ''ann'', Text = ''hi''\<rparr>]"
      and rest = "[Message \<lparr>Channel = ''C1'', User = ''U2'', Username = ''ann'', Text = ''hi''\<rparr>, Other]"]
  by (simp add: Let_def Match_def MessageFromContext_Add route_matches_def literal_route_def empty_match_def)

text \<open>
  Claim C8. When the loop receives a transport error it prints it, changes nothing
  and goes on with the next event; the error never ends the loop.
\<close>

theorem TransportError_continues:
  assumes "status (Run b pre) = Awaiting"
  shows "handle_event (final (Run b pre)) (TransportError t s)
       = (final (Run b pre), [PrintError t s], Continue)
   \<and> Run b (pre @ TransportError t s # rest) =
       (let r = Run (final (Run b pre)) rest
        in r\<lparr>trace := trace (Run b pre) @ PrintError t s # trace r\<rparr>)
   \<and> status (Run b (pre @ [TransportError t s])) = Awaiting"
  by (simp add: Run_append [OF assms] Let_def)

theorem TransportError_continues_witness:
  "status (Run \<lparr>routes = [literal_route ''hi'' (1::nat)], botUserID = ''U123'', botUserName = ''bot1''\<rparr> [Other]) = Awaiting
   \<and> trace (Run \<lparr>routes = [literal_route ''hi'' (1::nat)], botUserID = ''U123'', botUserName = ''bot1''\<rparr>
       ([Other] @ TransportError ''*net.OpError'' ''timeout''
          # [Message \<lparr>Channel = ''C1'', User = ''U2'', Username = ''ann'', Text = ''hi''\<rparr>]))
     = [PrintError ''*net.OpError'' ''timeout'',
        CallMatch (AddMessageToContext (AddBotToContext Background)
          \<lparr>Channel = ''C1'', User = ''U2'', Username = ''ann'', Text = ''hi''\<rparr>),
        CallHandler 1 (AddMessageToContext (AddBotToContext Background)
          \<lparr>Channel = ''C1'', User = ''U2'', Username = ''ann'', Text = ''hi''\<rparr>)]
   \<and> status (Run \<lparr>routes = [literal_route ''hi'' (1::nat)], botUserID = ''U123'', botUserName = ''bot1''\<rparr>
       ([Other] @ [TransportError ''*net.OpError'' ''timeout''])) = Awaiting"
  using TransportError_continues [where b = "\<lparr>routes = [literal_route ''hi'' (1::nat)], botUserID = ''U123'', botUserName = ''bot1''\<rparr>"
      and pre = "[Other]" and t = "''*net.OpError''" and s = "''timeout''"
      and rest = "[Message \<lparr>Channel = ''C1'', User = ''U2'', Username = ''ann'', Text = ''hi''\<rparr>]"]
  by (simp add: Let_def Match_def MessageFromContext_Add route_matches_def literal_route_def empty_match_def)

text \<open>
  Claim C9. When the loop receives a Connected event it stores the event's user ID and
  user name in \<^verbatim>\<open>botUserID\<close> and \<^verbatim>\<open>botUserName\<close>, over whatever was stored
  before, and \<^verbatim>\<open>BotUserID\<close> and \<^verbatim>\<open>BotUserName\<close> then return them.
\<close>

theorem Connected_stores_identity:
  assumes "status (Run b pre) = Awaiting"
  shows "handle_event (final (Run b pre)) (Connected u n)
       = ((final (Run b pre))\<lparr>botUserID := ID u, botUserName := Name u\<rparr>, [PrintConnected u n], Continue)
   \<and> BotUserID (final (Run b (pre @ [Connected u n]))) = ID u
   \<and> BotUserName (final (Run b (pre @ [Connected u n]))) = Name u
   \<and> routes (final (Run b (pre @ [Connected u n]))) = routes (final (Run b pre))
   \<and> status (Run b (pre @ [Connected u n])) = Awaiting"
  by (simp add: Run_append [OF assms] Let_def setBotID_def setBotName_def BotUserID_def BotUserName_def)

text \<open>
  Connected is issued twice: the accessors return the identity of the second event.
\<close>

theorem Connected_stores_identity_witness:
  "status (Run \<lparr>routes = [literal_route ''hi'' (1::nat)], botUserID = [], botUserName = []\<rparr>
      [Connected \<lparr>ID = ''U123'', Name = ''bot1''\<rparr> 1]) = Awaiting
   \<and> BotUserID (final (Run \<lparr>routes = [literal_route ''hi'' (1::nat)], botUserID = [], botUserName = []\<rparr>
      [Connected \<lparr>ID = ''U123'', Name = ''bot1''\<rparr> 1])) = ''U123''
   \<and> BotUserID (final (Run \<lparr>routes = [literal_route ''hi'' (1::nat)], botUserID = [], botUserName = []\<rparr>
      ([Connected \<lparr>ID = ''U123'', Name = ''bot1''\<rparr> 1] @ [Connected \<lparr>ID = ''U456'', Name = ''bot2''\<rparr> 2]))) = ''U456''
   \<and> BotUserName (final (Run \<lparr>routes = [literal_route ''hi'' (1::nat)], botUserID = [], botUserName = []\<rparr>
      ([Connected \<lparr>ID = ''U123'', Name = ''bot1''\<rparr> 1] @ [Connected \<lparr>ID = ''U456'', Name = ''bot2''\<rparr> 2]))) = ''bot2''"
  using Connected_stores_identity [where b = "\<lparr>routes = [literal_route ''hi'' (1::nat)], botUserID = [], botUserName = []\<rparr>"
      and pre = "[Connected \<lparr>ID = ''U123'', Name = ''bot1''\<rparr> 1]"
      and u = "\<lparr>ID = ''U456'', Name = ''bot2''\<rparr>" and n = 2]
  by (simp add: setBotID_def setBotName_def BotUserID_def)

end
